theory Spec2Isabelle
  imports Main "HOL-Library.Word"
begin

unbundle bit_operations_syntax

section \<open>Package gormuuid: a UUID primary key stored as a byte slice\<close>

text \<open>
  The package (\<^verbatim>\<open>uuid.go\<close>) declares one error value, one struct with the single
  field \<^verbatim>\<open>ID []byte\<close>, and two methods on a pointer to that struct:
  \<^verbatim>\<open>BeforeCreate\<close>, which fills the field before insertion, and \<^verbatim>\<open>UUID\<close>, which decodes
  it. Both delegate to package \<^verbatim>\<open>github.com/google/uuid\<close>.

  A method on a pointer receiver is modelled by explicit state passing: it takes the
  struct and returns the struct as the call leaves it, next to its results. A Go
  \<^verbatim>\<open>error\<close> result is an \<open>error option\<close>, \<open>None\<close> for \<^verbatim>\<open>nil\<close>.
\<close>

subsection \<open>Data\<close>

type_synonym byte = "8 word"

text \<open>
  Error values. \<open>ErrorNoUUID\<close> is the package's own sentinel,
  \<^verbatim>\<open>errors.New("UUID has not been created")\<close>. The other constructors are the errors
  made outside the package: \<open>InvalidLength n\<close> is the uuid package's
  \<^verbatim>\<open>fmt.Errorf("invalid UUID (got %d bytes)", n)\<close>, and \<open>OtherError msg\<close> is any other
  error with its message. Go compares error values made by \<^verbatim>\<open>errors.New\<close> by
  identity, so the sentinel differs from every error made elsewhere, whatever its text.
\<close>

datatype error = ErrorNoUUID | InvalidLength nat | OtherError string

text \<open>
  The type \<^verbatim>\<open>uuid.UUID\<close> of the uuid package is \<^verbatim>\<open>[16]byte\<close>: an array of exactly
  16 bytes.
\<close>

typedef uuid = "{bs :: byte list. length bs = 16}"
  morphisms bytes Abs_uuid
  by (rule exI [of _ "replicate 16 0"]) simp

setup_lifting type_definition_uuid

text \<open>The struct \<^verbatim>\<open>type UUID struct { ID []byte }\<close>. A nil slice is the empty list.\<close>

record UUID =
  ID :: "byte list"

subsection \<open>The methods, over the operations of the uuid package\<close>

text \<open>
  \<^verbatim>\<open>BeforeCreate\<close>, with the two things it takes from the uuid package as parameters:
  \<open>marshal\<close> stands for the method \<^verbatim>\<open>MarshalBinary\<close> and \<open>v\<close> for the value that
  \<^verbatim>\<open>uuid.New()\<close> returns in this call.

  \<^verbatim>\<open>
  func (u *UUID) BeforeCreate() (err error) {
      if len(u.ID) == 16 { return }
      uuid, err := uuid.New().MarshalBinary()
      if err != nil { return }
      u.ID = uuid
      return
  }
  \<close>

  The short declaration assigns the named result \<^verbatim>\<open>err\<close>, so the bare
  \<^verbatim>\<open>return\<close> after it returns the error of \<^verbatim>\<open>MarshalBinary\<close>.
\<close>

definition BeforeCreate_with ::
  "(uuid \<Rightarrow> byte list \<times> error option) \<Rightarrow> uuid \<Rightarrow> UUID \<Rightarrow> UUID \<times> error option" where
  "BeforeCreate_with marshal v u =
     (if length (ID u) = 16 then (u, None)
      else (case marshal v of
              (bs, Some e) \<Rightarrow> (u, Some e)
            | (bs, None) \<Rightarrow> (u\<lparr>ID := bs\<rparr>, None)))"

text \<open>
  \<^verbatim>\<open>UUID\<close>, with \<^verbatim>\<open>uuid.FromBytes\<close> as a parameter. It returns what
  \<^verbatim>\<open>FromBytes\<close> returns on the field, and assigns nothing.

  \<^verbatim>\<open>
  func (u *UUID) UUID() (uuid.UUID, error) {
      return uuid.FromBytes(u.ID)
  }
  \<close>
\<close>

definition UUID_with :: "(byte list \<Rightarrow> 'r) \<Rightarrow> UUID \<Rightarrow> UUID \<times> 'r" where
  "UUID_with fromBytes u = (u, fromBytes (ID u))"

subsection \<open>Package github.com/google/uuid\<close>

text \<open>
  Package \<^verbatim>\<open>github.com/google/uuid\<close> is an imported dependency: its source is not
  part of this repository. Each definition of this subsection is therefore modelled from
  the collaborator contract of the specification: generate-random-v4-uuid gives a
  structured UUID of 122 random bits plus the fixed version and variant bits; marshal
  gives the canonical 16-byte sequence; unmarshal gives the structured value and fails
  if the length is not 16; the canonical string is 36 characters of hyphenated
  hexadecimal, \<^verbatim>\<open>xxxxxxxx-xxxx-4xxx-[89ab]xxx-xxxxxxxxxxxx\<close> for a version-4 UUID.
\<close>

text \<open>
  Modelled from the spec: \<^verbatim>\<open>uuid.Nil\<close>, the zero value of \<^verbatim>\<open>uuid.UUID\<close>, is missing.
  It is the array of 16 zero bytes.
\<close>

lift_definition Nil_uuid :: uuid is "replicate 16 0"
  by simp

text \<open>
  Modelled from the spec: \<^verbatim>\<open>uuid.New\<close> is missing. It reads 16 bytes from the
  system's random source, here the argument \<open>rnd\<close>, and overwrites the version
  nibble of byte 6 with 4 and the two variant bits of byte 8 with binary 10, which leaves
  122 random bits. It has no error result; a random source that cannot be read ends the
  real call abruptly, which is outside this model.
\<close>

lift_definition New :: "uuid \<Rightarrow> uuid" is
  "\<lambda>rnd. rnd[6 := (rnd ! 6 AND 0x0f) OR 0x40, 8 := (rnd ! 8 AND 0x3f) OR 0x80]"
  by simp

text \<open>
  Modelled from the spec: the method \<^verbatim>\<open>MarshalBinary\<close> of \<^verbatim>\<open>uuid.UUID\<close> is missing.
  It returns the 16 bytes of the array as a slice, and a nil error.
\<close>

definition MarshalBinary :: "uuid \<Rightarrow> byte list \<times> error option" where
  "MarshalBinary v = (bytes v, None)"

text \<open>
  Modelled from the spec: Go's built-in \<^verbatim>\<open>copy(dst, src)\<close> on byte slices, as the
  contents of \<open>dst\<close> after the call: the first \<open>min (length dst) (length src)\<close>
  elements come from \<open>src\<close>, the rest of \<open>dst\<close> stays.
\<close>

definition copy_bytes :: "byte list \<Rightarrow> byte list \<Rightarrow> byte list" where
  "copy_bytes dst src = take (length dst) src @ drop (length src) dst"

definition copy_uuid :: "uuid \<Rightarrow> byte list \<Rightarrow> uuid" where
  "copy_uuid dst src = Abs_uuid (copy_bytes (bytes dst) src)"

text \<open>
  Modelled from the spec: the method \<^verbatim>\<open>UnmarshalBinary\<close> and the function
  \<^verbatim>\<open>uuid.FromBytes\<close> are missing. \<^verbatim>\<open>UnmarshalBinary\<close> fails, leaving its receiver as
  it is, if the data is not 16 bytes long, and copies the data into the receiver
  otherwise. \<^verbatim>\<open>FromBytes\<close> runs it on a zero-valued result.
\<close>

definition UnmarshalBinary :: "uuid \<Rightarrow> byte list \<Rightarrow> uuid \<times> error option" where
  "UnmarshalBinary v data =
     (if length data \<noteq> 16 then (v, Some (InvalidLength (length data)))
      else (copy_uuid v data, None))"

definition FromBytes :: "byte list \<Rightarrow> uuid \<times> error option" where
  "FromBytes b = UnmarshalBinary Nil_uuid b"

text \<open>
  Modelled from the spec: the methods \<^verbatim>\<open>Version\<close> and \<^verbatim>\<open>Variant\<close> of
  \<^verbatim>\<open>uuid.UUID\<close> are missing. The version is the high nibble of byte 6 (time-hi-and-version);
  the variant is read from the top bits of byte 8 (clock-seq-hi-and-reserved), binary 10
  being the RFC 4122 variant.
\<close>

type_synonym Version = byte

definition Version :: "uuid \<Rightarrow> Version" where
  "Version v = drop_bit 4 (bytes v ! 6)"

datatype Variant = Invalid | RFC4122 | Reserved | Microsoft | Future

definition Variant :: "uuid \<Rightarrow> Variant" where
  "Variant v =
     (if bytes v ! 8 AND 0xc0 = 0x80 then RFC4122
      else if bytes v ! 8 AND 0xe0 = 0xc0 then Microsoft
      else if bytes v ! 8 AND 0xe0 = 0xe0 then Future
      else Reserved)"

text \<open>
  Modelled from the spec: the method \<^verbatim>\<open>String\<close> of \<^verbatim>\<open>uuid.UUID\<close> is missing. It
  writes the bytes as lower-case hexadecimal, two digits a byte, with a hyphen after
  bytes 4, 6, 8 and 10.
\<close>

definition hextable :: string where
  "hextable = ''0123456789abcdef''"

definition hex_byte :: "byte \<Rightarrow> string" where
  "hex_byte b = [hextable ! unat (drop_bit 4 b), hextable ! unat (b AND 0x0f)]"

definition hex_Encode :: "byte list \<Rightarrow> string" where
  "hex_Encode bs = concat (map hex_byte bs)"

definition encodeHex :: "byte list \<Rightarrow> string" where
  "encodeHex bs =
     hex_Encode (take 4 bs) @ ''-'' @
     hex_Encode (take 2 (drop 4 bs)) @ ''-'' @
     hex_Encode (take 2 (drop 6 bs)) @ ''-'' @
     hex_Encode (take 2 (drop 8 bs)) @ ''-'' @
     hex_Encode (drop 10 bs)"

definition String :: "uuid \<Rightarrow> string" where
  "String v = encodeHex (bytes v)"

text \<open>
  The textual rendering of a byte sequence, in the words of the specification: its
  hexadecimal digits, hyphenated in groups of 8, 4, 4, 4 and 12. It is stated apart
  from \<open>String\<close>, to compare the two.
\<close>

definition textual_rendering :: "byte list \<Rightarrow> string" where
  "textual_rendering B =
     (let h = hex_Encode B in
        take 8 h @ ''-'' @ take 4 (drop 8 h) @ ''-'' @ take 4 (drop 12 h) @ ''-'' @
        take 4 (drop 16 h) @ ''-'' @ drop 20 h)"

subsection \<open>The methods of the package\<close>

text \<open>
  The two methods as the package runs them, on the uuid package above. \<open>rnd\<close> is
  what the random source delivers to \<^verbatim>\<open>uuid.New()\<close> in this call of
  \<^verbatim>\<open>BeforeCreate\<close>.
\<close>

definition BeforeCreate :: "uuid \<Rightarrow> UUID \<Rightarrow> UUID \<times> error option" where
  "BeforeCreate rnd u = BeforeCreate_with MarshalBinary (New rnd) u"

definition UUID :: "UUID \<Rightarrow> UUID \<times> (uuid \<times> error option)" where
  "UUID u = UUID_with FromBytes u"

subsection \<open>The identity of error values\<close>






section \<open>Properties\<close>

subsection \<open>Auxiliary facts\<close>

lemma length_bytes [simp]: "length (bytes v) = 16"
  using bytes [of v] by simp

lemma bytes_copy_uuid [code abstract]:
  "bytes (copy_uuid dst src) = copy_bytes (bytes dst) src"
  unfolding copy_uuid_def
  by (rule Abs_uuid_inverse) (simp add: copy_bytes_def)

lemma bytes_copy_uuid_full: "length src = 16 \<Longrightarrow> bytes (copy_uuid dst src) = src"
  by (simp add: bytes_copy_uuid copy_bytes_def)

lemma copy_uuid_bytes: "copy_uuid dst (bytes v) = v"
  by (simp add: bytes_inject [symmetric] bytes_copy_uuid_full)

lemma FromBytes_length_16: "length b = 16 \<Longrightarrow> FromBytes b = (copy_uuid Nil_uuid b, None)"
  by (simp add: FromBytes_def UnmarshalBinary_def)

lemma FromBytes_wrong_length:
  "length b \<noteq> 16 \<Longrightarrow> FromBytes b = (Nil_uuid, Some (InvalidLength (length b)))"
  by (simp add: FromBytes_def UnmarshalBinary_def)

lemma BeforeCreate_with_populated:
  "length (ID u) = 16 \<Longrightarrow> BeforeCreate_with marshal v u = (u, None)"
  by (simp add: BeforeCreate_with_def)

lemma BeforeCreate_fills:
  "length (ID u) \<noteq> 16 \<Longrightarrow> BeforeCreate rnd u = (u\<lparr>ID := bytes (New rnd)\<rparr>, None)"
  by (simp add: BeforeCreate_def BeforeCreate_with_def MarshalBinary_def)

lemma version_nibble: "drop_bit 4 (((b::byte) AND 0x0f) OR 0x40) = 4"
  by (rule bit_word_eqI) (auto simp: bit_simps numeral_eq_Suc less_Suc_eq_0_disj)

lemma variant_bits: "(((b::byte) AND 0x3f) OR 0x80) AND 0xc0 = 0x80"
  by (rule bit_word_eqI) (auto simp: bit_simps numeral_eq_Suc less_Suc_eq_0_disj)

lemma Version_New: "Version (New rnd) = 4"
  by (simp add: Version_def New.rep_eq version_nibble)

lemma Variant_New: "Variant (New rnd) = RFC4122"
  by (simp add: Variant_def New.rep_eq variant_bits)

lemma hex_Encode_Cons: "hex_Encode (b # bs) = hex_byte b @ hex_Encode bs"
  by (simp add: hex_Encode_def)

lemma take_hex_Encode: "take (2 * k) (hex_Encode bs) = hex_Encode (take k bs)"
proof (induction bs arbitrary: k)
  case Nil
  then show ?case by (simp add: hex_Encode_def)
next
  case (Cons b bs)
  show ?case
  proof (cases k)
    case 0
    then show ?thesis by (simp add: hex_Encode_def)
  next
    case (Suc j)
    then show ?thesis
      using Cons.IH [of j] by (simp add: hex_Encode_Cons hex_byte_def)
  qed
qed

lemma drop_hex_Encode: "drop (2 * k) (hex_Encode bs) = hex_Encode (drop k bs)"
proof (induction bs arbitrary: k)
  case Nil
  then show ?case by (simp add: hex_Encode_def)
next
  case (Cons b bs)
  show ?case
  proof (cases k)
    case 0
    then show ?thesis by simp
  next
    case (Suc j)
    then show ?thesis
      using Cons.IH [of j] by (simp add: hex_Encode_Cons hex_byte_def)
  qed
qed

text \<open>The string of the uuid package is the rendering the specification describes.\<close>

lemma encodeHex_textual_rendering: "encodeHex B = textual_rendering B"
proof -
  let ?h = "hex_Encode B"
  have t8: "take 8 ?h = hex_Encode (take 4 B)"
    using take_hex_Encode [of 4 B] by simp
  have d8: "drop 8 ?h = hex_Encode (drop 4 B)"
    using drop_hex_Encode [of 4 B] by simp
  have d12: "drop 12 ?h = hex_Encode (drop 6 B)"
    using drop_hex_Encode [of 6 B] by simp
  have d16: "drop 16 ?h = hex_Encode (drop 8 B)"
    using drop_hex_Encode [of 8 B] by simp
  have d20: "drop 20 ?h = hex_Encode (drop 10 B)"
    using drop_hex_Encode [of 10 B] by simp
  have t4: "take 4 (hex_Encode bs) = hex_Encode (take 2 bs)" for bs
    using take_hex_Encode [of 2 bs] by simp
  show ?thesis
    unfolding encodeHex_def textual_rendering_def Let_def t8 d8 d12 d16 d20 t4 ..
qed

subsection \<open>Decoding a field that does not hold 16 bytes\<close>

text \<open>
  C1. The package documents \<open>ErrorNoUUID\<close> as the error returned when a UUID is asked
  for before it has been generated. \<^verbatim>\<open>UUID()\<close> on the empty field does return the
  zero-valued UUID and an error, but the error is the length error of
  \<^verbatim>\<open>uuid.FromBytes\<close>, passed on as it is, and not \<open>ErrorNoUUID\<close>.
\<close>

theorem UUID_empty_field_error:
  "UUID \<lparr>ID = []\<rparr> = (\<lparr>ID = []\<rparr>, (Nil_uuid, Some (InvalidLength 0)))
   \<and> snd (snd (UUID \<lparr>ID = []\<rparr>)) \<noteq> Some ErrorNoUUID"
  by (simp add: UUID_def UUID_with_def FromBytes_wrong_length)

subsection \<open>Filling an empty field\<close>

text \<open>
  C2. On a struct whose field is empty, \<^verbatim>\<open>BeforeCreate\<close> returns a nil error and leaves
  16 bytes in the field; \<^verbatim>\<open>UUID()\<close> then decodes them without error to a UUID of
  version 4 and of the RFC 4122 variant.
\<close>

theorem BeforeCreate_populates_empty:
  "ID u = [] \<Longrightarrow>
     snd (BeforeCreate rnd u) = None
     \<and> length (ID (fst (BeforeCreate rnd u))) = 16
     \<and> (\<exists>v. snd (UUID (fst (BeforeCreate rnd u))) = (v, None)
            \<and> Version v = 4 \<and> Variant v = RFC4122)"
proof -
  assume "ID u = []"
  then have run: "BeforeCreate rnd u = (u\<lparr>ID := bytes (New rnd)\<rparr>, None)"
    by (simp add: BeforeCreate_fills)
  have "snd (UUID (u\<lparr>ID := bytes (New rnd)\<rparr>)) = (New rnd, None)"
    by (simp add: UUID_def UUID_with_def FromBytes_length_16 copy_uuid_bytes)
  with run show ?thesis
    by (simp add: Version_New Variant_New)
qed

theorem BeforeCreate_populates_empty_witness:
  "ID \<lparr>ID = []\<rparr> = []
   \<and> snd (BeforeCreate Nil_uuid \<lparr>ID = []\<rparr>) = None
   \<and> length (ID (fst (BeforeCreate Nil_uuid \<lparr>ID = []\<rparr>))) = 16
   \<and> (\<exists>v. snd (UUID (fst (BeforeCreate Nil_uuid \<lparr>ID = []\<rparr>))) = (v, None)
          \<and> Version v = 4 \<and> Variant v = RFC4122)"
  using BeforeCreate_populates_empty [of "\<lparr>ID = []\<rparr>" Nil_uuid] by simp

subsection \<open>A populated field is respected\<close>

text \<open>
  C3. When the field holds 16 bytes, \<^verbatim>\<open>BeforeCreate\<close> returns a nil error and the
  struct as it was, whatever the uuid package would have produced; so a second call on a
  populated field changes nothing and reports no error.
\<close>

theorem BeforeCreate_respects_populated:
  "length (ID u) = 16 \<Longrightarrow>
     BeforeCreate_with marshal v u = (u, None)
     \<and> BeforeCreate rnd u = (u, None)
     \<and> BeforeCreate rnd' (fst (BeforeCreate rnd u)) = (u, None)"
  by (simp add: BeforeCreate_def BeforeCreate_with_populated)

theorem BeforeCreate_respects_populated_witness:
  "length (ID \<lparr>ID = replicate 16 7\<rparr>) = 16
   \<and> BeforeCreate_with MarshalBinary Nil_uuid \<lparr>ID = replicate 16 7\<rparr>
        = (\<lparr>ID = replicate 16 7\<rparr>, None)
   \<and> BeforeCreate Nil_uuid \<lparr>ID = replicate 16 7\<rparr> = (\<lparr>ID = replicate 16 7\<rparr>, None)
   \<and> BeforeCreate Nil_uuid (fst (BeforeCreate Nil_uuid \<lparr>ID = replicate 16 7\<rparr>))
        = (\<lparr>ID = replicate 16 7\<rparr>, None)"
  using BeforeCreate_respects_populated
    [of "\<lparr>ID = replicate 16 7\<rparr>" MarshalBinary Nil_uuid Nil_uuid Nil_uuid]
  by simp

subsection \<open>Marshalling and decoding\<close>

text \<open>
  C4. Round trip: the bytes that \<^verbatim>\<open>MarshalBinary\<close> gives for a UUID, stored in the
  field, are decoded by \<^verbatim>\<open>UUID()\<close> to that same UUID, without error. And a field
  holding any 16 bytes \<open>B\<close> decodes to a UUID that marshals back to \<open>B\<close> and whose
  string is the textual rendering of \<open>B\<close>.
\<close>

theorem marshal_decode_roundtrip:
  "UUID \<lparr>ID = fst (MarshalBinary v)\<rparr> = (\<lparr>ID = fst (MarshalBinary v)\<rparr>, (v, None))
   \<and> (length B = 16 \<longrightarrow>
        (\<exists>w. snd (UUID \<lparr>ID = B\<rparr>) = (w, None)
             \<and> MarshalBinary w = (B, None)
             \<and> String w = textual_rendering B))"
proof (intro conjI impI)
  show "UUID \<lparr>ID = fst (MarshalBinary v)\<rparr> = (\<lparr>ID = fst (MarshalBinary v)\<rparr>, (v, None))"
    by (simp add: UUID_def UUID_with_def MarshalBinary_def FromBytes_length_16 copy_uuid_bytes)
next
  assume len: "length B = 16"
  let ?w = "copy_uuid Nil_uuid B"
  have "snd (UUID \<lparr>ID = B\<rparr>) = (?w, None)"
    using len by (simp add: UUID_def UUID_with_def FromBytes_length_16)
  moreover have "MarshalBinary ?w = (B, None)"
    using len by (simp add: MarshalBinary_def bytes_copy_uuid_full)
  moreover have "String ?w = textual_rendering B"
    using len by (simp add: String_def bytes_copy_uuid_full encodeHex_textual_rendering)
  ultimately show "\<exists>w. snd (UUID \<lparr>ID = B\<rparr>) = (w, None)
      \<and> MarshalBinary w = (B, None) \<and> String w = textual_rendering B"
    by blast
qed

theorem marshal_decode_roundtrip_witness:
  "UUID \<lparr>ID = fst (MarshalBinary Nil_uuid)\<rparr>
     = (\<lparr>ID = fst (MarshalBinary Nil_uuid)\<rparr>, (Nil_uuid, None))
   \<and> length ([0x12, 0x3e, 0x45, 0x67, 0xe8, 0x9b, 0x12, 0xd3, 0xa4, 0x56, 0x42, 0x66, 0x14, 0x17, 0x40, 0x00 :: byte]) = 16
   \<and> (\<exists>w. snd (UUID \<lparr>ID = [0x12, 0x3e, 0x45, 0x67, 0xe8, 0x9b, 0x12, 0xd3, 0xa4, 0x56, 0x42, 0x66, 0x14, 0x17, 0x40, 0x00]\<rparr>) = (w, None)
          \<and> MarshalBinary w = ([0x12, 0x3e, 0x45, 0x67, 0xe8, 0x9b, 0x12, 0xd3, 0xa4, 0x56, 0x42, 0x66, 0x14, 0x17, 0x40, 0x00], None)
          \<and> String w = ''123e4567-e89b-12d3-a456-426614174000'')"
proof -
  let ?B = "[0x12, 0x3e, 0x45, 0x67, 0xe8, 0x9b, 0x12, 0xd3, 0xa4, 0x56, 0x42, 0x66, 0x14, 0x17, 0x40, 0x00 :: byte]"
  have len: "length ?B = 16"
    by simp
  have rendered: "textual_rendering ?B = ''123e4567-e89b-12d3-a456-426614174000''"
    by code_simp
  from marshal_decode_roundtrip [of Nil_uuid ?B] len rendered show ?thesis
    by simp
qed

subsection \<open>An error of the uuid package\<close>

text \<open>
  C5. When the field is not populated and \<^verbatim>\<open>MarshalBinary\<close> returns an error for the
  UUID that \<^verbatim>\<open>uuid.New()\<close> gave, \<^verbatim>\<open>BeforeCreate\<close> returns that very error and leaves the
  struct as it was. This is stated over any \<^verbatim>\<open>MarshalBinary\<close>: the error of that call
  is the only error the method can receive, \<^verbatim>\<open>uuid.New()\<close> having no error result.
\<close>

theorem BeforeCreate_propagates_error:
  "length (ID u) \<noteq> 16 \<Longrightarrow> marshal v = (bs, Some e) \<Longrightarrow>
     BeforeCreate_with marshal v u = (u, Some e)"
  by (simp add: BeforeCreate_with_def)

theorem BeforeCreate_propagates_error_witness:
  "length (ID \<lparr>ID = []\<rparr>) \<noteq> 16
   \<and> (\<lambda>_. ([1, 2], Some (OtherError ''encoding fault''))) Nil_uuid
        = ([1, 2 :: byte], Some (OtherError ''encoding fault''))
   \<and> BeforeCreate_with (\<lambda>_. ([1, 2], Some (OtherError ''encoding fault''))) Nil_uuid
        \<lparr>ID = []\<rparr>
        = (\<lparr>ID = []\<rparr>, Some (OtherError ''encoding fault''))"
  using BeforeCreate_propagates_error
    [of "\<lparr>ID = []\<rparr>" "\<lambda>_. ([1, 2], Some (OtherError ''encoding fault''))" Nil_uuid
        "[1, 2]" "OtherError ''encoding fault''"]
  by simp

subsection \<open>Sixteen bytes of any content\<close>

text \<open>
  C6. A field set by the caller to any 16 bytes \<open>B\<close> is left as it is by
  \<^verbatim>\<open>BeforeCreate\<close>, with a nil error, and \<^verbatim>\<open>UUID()\<close> then returns, without error, the
  UUID made of exactly those bytes, whatever version and variant they spell. For 16 zero
  bytes this is the nil UUID, whose string is
  \<^verbatim>\<open>00000000-0000-0000-0000-000000000000\<close>. Its version is 0, not 4, and its
  variant is not that of RFC 4122: neither method checks version or variant.
\<close>

theorem zero_bytes_respected:
  "(length B = 16 \<longrightarrow>
      BeforeCreate rnd \<lparr>ID = B\<rparr> = (\<lparr>ID = B\<rparr>, None)
      \<and> (\<exists>w. UUID \<lparr>ID = B\<rparr> = (\<lparr>ID = B\<rparr>, (w, None)) \<and> bytes w = B
             \<and> Version w = drop_bit 4 (B ! 6)))
   \<and> BeforeCreate rnd \<lparr>ID = replicate 16 0\<rparr> = (\<lparr>ID = replicate 16 0\<rparr>, None)
   \<and> UUID \<lparr>ID = replicate 16 0\<rparr> = (\<lparr>ID = replicate 16 0\<rparr>, (Nil_uuid, None))
   \<and> String Nil_uuid = ''00000000-0000-0000-0000-000000000000''
   \<and> Version Nil_uuid = 0 \<and> Variant Nil_uuid = Reserved"
proof -
  have any: "BeforeCreate rnd \<lparr>ID = B\<rparr> = (\<lparr>ID = B\<rparr>, None)
      \<and> (\<exists>w. UUID \<lparr>ID = B\<rparr> = (\<lparr>ID = B\<rparr>, (w, None)) \<and> bytes w = B
             \<and> Version w = drop_bit 4 (B ! 6))"
    if len: "length B = 16"
  proof
    show "BeforeCreate rnd \<lparr>ID = B\<rparr> = (\<lparr>ID = B\<rparr>, None)"
      using len by (simp add: BeforeCreate_def BeforeCreate_with_populated)
    let ?w = "copy_uuid Nil_uuid B"
    have "UUID \<lparr>ID = B\<rparr> = (\<lparr>ID = B\<rparr>, (?w, None))"
      using len by (simp add: UUID_def UUID_with_def FromBytes_length_16)
    moreover have "bytes ?w = B"
      using len by (rule bytes_copy_uuid_full)
    ultimately show "\<exists>w. UUID \<lparr>ID = B\<rparr> = (\<lparr>ID = B\<rparr>, (w, None)) \<and> bytes w = B
        \<and> Version w = drop_bit 4 (B ! 6)"
      by (auto simp: Version_def)
  qed
  have a: "BeforeCreate rnd \<lparr>ID = replicate 16 0\<rparr> = (\<lparr>ID = replicate 16 0\<rparr>, None)"
    by (simp add: BeforeCreate_def BeforeCreate_with_populated)
  have "copy_uuid Nil_uuid (replicate 16 0) = Nil_uuid"
    using copy_uuid_bytes [of Nil_uuid Nil_uuid] by (simp add: Nil_uuid.rep_eq)
  then have b: "UUID \<lparr>ID = replicate 16 0\<rparr> = (\<lparr>ID = replicate 16 0\<rparr>, (Nil_uuid, None))"
    by (simp add: UUID_def UUID_with_def FromBytes_length_16)
  have c: "String Nil_uuid = ''00000000-0000-0000-0000-000000000000''"
    by code_simp
  have d: "Version Nil_uuid = 0"
    by (simp add: Version_def Nil_uuid.rep_eq)
  have e: "Variant Nil_uuid = Reserved"
    by (simp add: Variant_def Nil_uuid.rep_eq)
  from any a b c d e show ?thesis
    by blast
qed

text \<open>
  The instance at 16 bytes \<^verbatim>\<open>0xff\<close>, which spell version 15: they are kept and decoded.
\<close>

theorem zero_bytes_respected_witness:
  "length (replicate 16 (0xff :: byte)) = 16
   \<and> BeforeCreate Nil_uuid \<lparr>ID = replicate 16 0xff\<rparr> = (\<lparr>ID = replicate 16 0xff\<rparr>, None)
   \<and> (\<exists>w. UUID \<lparr>ID = replicate 16 0xff\<rparr> = (\<lparr>ID = replicate 16 0xff\<rparr>, (w, None))
          \<and> bytes w = replicate 16 0xff \<and> Version w = 15)"
proof -
  have len: "length (replicate 16 (0xff :: byte)) = 16"
    by simp
  have nibble: "drop_bit 4 (replicate 16 (0xff :: byte) ! 6) = 15"
    by simp
  from zero_bytes_respected [of "replicate 16 0xff" Nil_uuid] len nibble show ?thesis
    by simp
qed

text \<open>
  C7. \<^verbatim>\<open>UUID()\<close> on a field of exactly 16 bytes, of any content, returns a nil error.
\<close>

theorem UUID_16_bytes_no_error:
  "length (ID u) = 16 \<Longrightarrow> snd (snd (UUID u)) = None"
  by (simp add: UUID_def UUID_with_def FromBytes_length_16)

theorem UUID_16_bytes_no_error_witness:
  "length (ID \<lparr>ID = replicate 16 255\<rparr>) = 16
   \<and> snd (snd (UUID \<lparr>ID = replicate 16 255\<rparr>)) = None"
  using UUID_16_bytes_no_error [of "\<lparr>ID = replicate 16 255\<rparr>"] by simp

subsection \<open>Effects and results of the two methods\<close>

text \<open>
  C8. \<^verbatim>\<open>UUID()\<close> leaves the struct as it found it, whatever the field holds and
  whatever \<^verbatim>\<open>FromBytes\<close> returns: the method assigns nothing, and the struct is all
  the state there is.
\<close>

theorem UUID_no_side_effect:
  "fst (UUID_with fromBytes u) = u \<and> fst (UUID u) = u"
  by (simp add: UUID_def UUID_with_def)

text \<open>
  C9. \<^verbatim>\<open>BeforeCreate\<close> returns a nil error from every state of the field and for every
  UUID generated: \<^verbatim>\<open>MarshalBinary\<close> does not fail, so the error branch is never taken.
\<close>

theorem BeforeCreate_never_fails: "snd (BeforeCreate rnd u) = None"
  by (simp add: BeforeCreate_def BeforeCreate_with_def MarshalBinary_def)




end
